theory Spec2Isabelle
  imports Main "HOL-Library.Word"
begin

unbundle bit_operations_syntax

section \<open>Python values used by models.py and extract.py\<close>

text \<open>
  A Python \<open>float\<close> is an IEEE 754 binary64 value; it is kept as its 64-bit pattern.
  No arithmetic is done on floats by the code under study: they are parsed, stored,
  tested for truth and emitted.
\<close>

type_synonym float64 = "64 word"

definition nan :: float64 where
  \<comment> \<open>\<open>float('nan')\<close>: the default quiet NaN\<close>
  "nan = 0x7FF8000000000000"

definition is_nan :: "float64 \<Rightarrow> bool" where
  "is_nan x \<longleftrightarrow>
     x AND 0x7FF0000000000000 = 0x7FF0000000000000 \<and> x AND 0x000FFFFFFFFFFFFF \<noteq> 0"

definition is_zero :: "float64 \<Rightarrow> bool" where
  \<comment> \<open>\<open>x == 0.0\<close>: true of \<open>0.0\<close> and of \<open>-0.0\<close>\<close>
  "is_zero x \<longleftrightarrow> x AND 0x7FFFFFFFFFFFFFFF = 0"

definition float_truthy :: "float64 \<Rightarrow> bool" where
  \<comment> \<open>\<open>bool(x)\<close> of a float is \<open>x != 0.0\<close>; NaN is truthy\<close>
  "float_truthy x \<longleftrightarrow> \<not> is_zero x"

definition float_or_nan :: "float64 \<Rightarrow> float64" where
  \<comment> \<open>the expression \<open>x or float('nan')\<close>\<close>
  "float_or_nan x = (if float_truthy x then x else nan)"

datatype error = ValueError | TypeError | AttributeError | IndexError

datatype pyval = PyNone | PyStr string | PyFloat float64 | PyBool bool

fun truthy :: "pyval \<Rightarrow> bool" where
  "truthy PyNone = False"
| "truthy (PyStr s) = (s \<noteq> [])"
| "truthy (PyFloat x) = float_truthy x"
| "truthy (PyBool b) = b"

text \<open>
  The built-in \<open>float(v)\<close>. Parsing a string is Python's own work, so the parser
  \<open>fos\<close> (string to float, \<open>None\<close> where Python raises \<open>ValueError\<close>) is a parameter.
\<close>

fun py_float :: "(string \<Rightarrow> float64 option) \<Rightarrow> pyval \<Rightarrow> error + float64" where
  "py_float fos PyNone = Inl TypeError"
| "py_float fos (PyStr s) = (case fos s of None \<Rightarrow> Inl ValueError | Some x \<Rightarrow> Inr x)"
| "py_float fos (PyFloat x) = Inr x"
| "py_float fos (PyBool b) = Inr (if b then 0x3FF0000000000000 else 0)"

definition str_or_empty :: "string option \<Rightarrow> string" where
  \<comment> \<open>the expression \<open>s or ''\<close> for \<open>s\<close> a string or \<open>None\<close>\<close>
  "str_or_empty s = (case s of None \<Rightarrow> [] | Some t \<Rightarrow> t)"

definition py_str :: "string option \<Rightarrow> string" where
  \<comment> \<open>how an f-string renders a string or \<open>None\<close>\<close>
  "py_str s = (case s of None \<Rightarrow> ''None'' | Some t \<Rightarrow> t)"

section \<open>Calendar timestamps\<close>

record datetime =
  year :: nat
  month :: nat
  day :: nat
  hour :: nat
  minute :: nat
  second :: nat

definition valid_datetime :: "datetime \<Rightarrow> bool" where
  \<comment> \<open>the ranges every Python \<open>datetime\<close> object satisfies\<close>
  "valid_datetime dt \<longleftrightarrow>
     1 \<le> year dt \<and> year dt \<le> 9999 \<and> 1 \<le> month dt \<and> month dt \<le> 12 \<and>
     1 \<le> day dt \<and> day dt \<le> 31 \<and> hour dt < 24 \<and> minute dt < 60 \<and> second dt < 60"

definition digit :: "nat \<Rightarrow> char" where
  \<comment> \<open>the last decimal digit of \<open>n\<close>\<close>
  "digit n = ''0123456789'' ! (n mod 10)"

fun decimal :: "nat \<Rightarrow> string" where
  \<comment> \<open>a number in decimal, with no padding\<close>
  "decimal n = (if n < 10 then [digit n] else decimal (n div 10) @ [digit n])"

declare decimal.simps [simp del]

definition pad2 :: "nat \<Rightarrow> string" where
  "pad2 n = [digit (n div 10), digit n]"

definition strftime_ymd_hm :: "datetime \<Rightarrow> string" where
  \<comment> \<open>\<open>dt.strftime("%Y-%m-%d %H:%M")\<close> as CPython gives it through the C library
      on Linux: \<open>%m\<close>, \<open>%d\<close>, \<open>%H\<close> and \<open>%M\<close> are padded to two digits, \<open>%Y\<close> is
      the year in decimal with no padding (\<open>999\<close> for the year 999)\<close>
  "strftime_ymd_hm dt =
     decimal (year dt) @ ''-'' @ pad2 (month dt) @ ''-'' @ pad2 (day dt) @ '' '' @
     pad2 (hour dt) @ '':'' @ pad2 (minute dt)"

definition is_digit :: "char \<Rightarrow> bool" where
  "is_digit c \<longleftrightarrow> 48 \<le> (of_char c :: nat) \<and> (of_char c :: nat) \<le> 57"

definition read2 :: "string \<Rightarrow> nat" where
  \<comment> \<open>the number written by the first two characters\<close>
  "read2 s = 10 * (of_char (s ! 0) - 48) + (of_char (s ! 1) - 48)"

definition read4 :: "string \<Rightarrow> nat" where
  \<comment> \<open>the number written by the first four characters\<close>
  "read4 s =
     1000 * (of_char (s ! 0) - 48) + 100 * (of_char (s ! 1) - 48) +
     10 * (of_char (s ! 2) - 48) + (of_char (s ! 3) - 48)"

definition matches_ymd_hm :: "string \<Rightarrow> bool" where
  \<comment> \<open>the pattern \<open>DDDD-DD-DD DD:DD\<close> with a 24-hour clock\<close>
  "matches_ymd_hm s \<longleftrightarrow>
     length s = 16 \<and>
     list_all is_digit (take 4 s) \<and> s ! 4 = CHR ''-'' \<and>
     list_all is_digit (take 2 (drop 5 s)) \<and> s ! 7 = CHR ''-'' \<and>
     list_all is_digit (take 2 (drop 8 s)) \<and> s ! 10 = CHR '' '' \<and>
     list_all is_digit (take 2 (drop 11 s)) \<and> s ! 13 = CHR '':'' \<and>
     list_all is_digit (take 2 (drop 14 s)) \<and>
     read2 (drop 11 s) < 24 \<and> read2 (drop 14 s) < 60"

section \<open>models.py\<close>

text \<open>
  Objects are embedded by value: a \<open>CloseApproach\<close> holds the NEO its \<open>neo\<close>
  attribute refers to, a \<open>NearEarthObject\<close> the approaches of its list. Neither
  models.py nor extract.py assigns to an attribute after the constructor has run.

  The \<open>time\<close> attribute is \<open>None\<close> here whenever the constructor left the given
  falsy value in place, and the parsed timestamp otherwise.
\<close>

datatype NearEarthObject =
  NearEarthObject
    (designation: "string option")
    (name: "string option")
    (diameter: float64)
    (hazardous: "bool option")
    (approaches: "CloseApproach list")
and CloseApproach =
  CloseApproach
    (ca_designation: pyval)
    (time: "datetime option")
    (distance: float64)
    (velocity: float64)
    (neo: "NearEarthObject option")

type_synonym pydict = "(string \<times> pyval) list"

definition NearEarthObject_init ::
  "(string \<Rightarrow> float64 option) \<Rightarrow> string option \<Rightarrow> string option \<Rightarrow> pyval \<Rightarrow> bool option
     \<Rightarrow> error + NearEarthObject" where
  "NearEarthObject_init fos designation0 name0 diameter0 hazardous0 =
     (let d = (if designation0 = Some [] then None else designation0);
          n = (if name0 = Some [] then None else name0)
      in case py_float fos diameter0 of
           Inr x \<Rightarrow> Inr (NearEarthObject d n x hazardous0 [])
         | Inl ValueError \<Rightarrow> Inr (NearEarthObject d n nan hazardous0 [])
         | Inl e \<Rightarrow> Inl e)"

definition hazardous_val :: "bool option \<Rightarrow> pyval" where
  "hazardous_val h = (case h of None \<Rightarrow> PyNone | Some b \<Rightarrow> PyBool b)"

definition NearEarthObject_serialize :: "NearEarthObject \<Rightarrow> pydict" where
  "NearEarthObject_serialize self =
     [(''designation'', PyStr (str_or_empty (designation self))),
      (''name'', PyStr (str_or_empty (name self))),
      (''diameter_km'', PyFloat (float_or_nan (diameter self))),
      (''potentially_hazardous'', hazardous_val (hazardous self))]"

definition info_get :: "(string \<rightharpoonup> pyval) \<Rightarrow> string \<Rightarrow> pyval \<Rightarrow> pyval" where
  \<comment> \<open>\<open>info.get(key, default)\<close>\<close>
  "info_get info k dflt = (case info k of None \<Rightarrow> dflt | Some v \<Rightarrow> v)"

definition init_time ::
  "(pyval \<Rightarrow> error + datetime) \<Rightarrow> (string \<rightharpoonup> pyval) \<Rightarrow> error + datetime option" where
  \<comment> \<open>the two statements that set \<open>self.time\<close>; \<open>cd_to_datetime\<close> is a parameter\<close>
  "init_time cd_to_datetime info =
     (let t = info_get info ''time'' PyNone
      in if truthy t
         then (case cd_to_datetime t of Inl e \<Rightarrow> Inl e | Inr dt \<Rightarrow> Inr (Some dt))
         else Inr None)"

definition CloseApproach_init ::
  "(pyval \<Rightarrow> error + datetime) \<Rightarrow> (string \<Rightarrow> float64 option) \<Rightarrow> (string \<rightharpoonup> pyval)
     \<Rightarrow> error + CloseApproach" where
  "CloseApproach_init cd_to_datetime fos info =
     (case init_time cd_to_datetime info of
        Inl e \<Rightarrow> Inl e
      | Inr t \<Rightarrow>
         (case py_float fos (info_get info ''distance'' (PyFloat 0)) of
            Inl e \<Rightarrow> Inl e
          | Inr d \<Rightarrow>
             (case py_float fos (info_get info ''velocity'' (PyFloat 0)) of
                Inl e \<Rightarrow> Inl e
              | Inr v \<Rightarrow>
                 Inr (CloseApproach (info_get info ''designation'' (PyStr [])) t d v None))))"

definition neo_suffix :: "NearEarthObject option \<Rightarrow> string" where
  \<comment> \<open>what \<open>time_str\<close> appends when \<open>self.neo\<close> is set\<close>
  "neo_suffix r =
     (case r of
        None \<Rightarrow> []
      | Some n \<Rightarrow> ''Name '' @ py_str (name n) @ '' Designation '' @ py_str (designation n))"

definition time_str :: "(datetime \<Rightarrow> string) \<Rightarrow> CloseApproach \<Rightarrow> string" where
  \<comment> \<open>the helper \<open>datetime_to_str\<close> is a parameter\<close>
  "time_str datetime_to_str self =
     (case time self of
        None \<Rightarrow> []
      | Some dt \<Rightarrow> ''Time '' @ datetime_to_str dt @ neo_suffix (neo self))"

definition CloseApproach_serialize :: "CloseApproach \<Rightarrow> error + pydict" where
  "CloseApproach_serialize self =
     (case time self of
        None \<Rightarrow> Inl AttributeError
      | Some dt \<Rightarrow>
         Inr [(''datetime_utc'', PyStr (strftime_ymd_hm dt)),
              (''distance_au'', PyFloat (float_or_nan (distance self))),
              (''velocity_km_s'', PyFloat (float_or_nan (velocity self)))])"

section \<open>extract.py\<close>

definition row_get :: "string list \<Rightarrow> nat \<Rightarrow> error + string" where
  \<comment> \<open>\<open>row[i]\<close> for a non-negative literal index\<close>
  "row_get row i = (if i < length row then Inr (row ! i) else Inl IndexError)"

definition neo_of_row :: "(string \<Rightarrow> float64 option) \<Rightarrow> string list \<Rightarrow> error + NearEarthObject" where
  \<comment> \<open>the constructor call of the loop body, its arguments evaluated left to right\<close>
  "neo_of_row fos row =
     (case row_get row 3 of Inl e \<Rightarrow> Inl e | Inr d \<Rightarrow>
     (case row_get row 4 of Inl e \<Rightarrow> Inl e | Inr n \<Rightarrow>
     (case row_get row 7 of Inl e \<Rightarrow> Inl e | Inr flag \<Rightarrow>
     (case row_get row 15 of Inl e \<Rightarrow> Inl e | Inr dia \<Rightarrow>
        NearEarthObject_init fos (Some d) (Some n) (PyStr dia) (Some (flag = ''Y''))))))"



section \<open>Sample inputs\<close>

text \<open>
  Concrete values on which the model is run below. \<open>sample_fos\<close> gives Python's
  \<open>float\<close> on the strings that occur in them (every other string used, such as
  \<open>abc\<close> and the empty string, is one that \<open>float\<close> rejects); \<open>sample_cd\<close>
  parses the two timestamps that occur.
\<close>

definition dt0 :: datetime where
  "dt0 = \<lparr>year = 1900, month = 1, day = 1, hour = 0, minute = 11, second = 0\<rparr>"

definition dt999 :: datetime where
  "dt999 = \<lparr>year = 999, month = 1, day = 1, hour = 0, minute = 11, second = 0\<rparr>"

definition sample_fos :: "string \<Rightarrow> float64 option" where
  "sample_fos =
     map_of [(''0.0'', 0), (''0.5'', 0x3FE0000000000000), (''16.75'', 0x4030C00000000000)]"

definition sample_cd :: "pyval \<Rightarrow> error + datetime" where
  "sample_cd v =
     (if v = PyStr ''1900-Jan-01 00:11'' then Inr dt0
      else if v = PyStr ''0999-Jan-01 00:11'' then Inr dt999
      else Inl ValueError)"

definition neo_eros :: NearEarthObject where
  "neo_eros =
     NearEarthObject (Some ''433'') (Some ''Eros'') 0x4030D70A3D70A3D7 (Some False) []"

definition ca_eros :: CloseApproach where
  \<comment> \<open>distance 0.0921, velocity 16.75, linked to Eros\<close>
  "ca_eros =
     CloseApproach (PyStr ''433'') (Some dt0) 0x3FB793DD97F62B6B 0x4030C00000000000
       (Some neo_eros)"

definition ca_unlinked :: CloseApproach where
  "ca_unlinked =
     CloseApproach (PyStr ''433'') (Some dt0) 0x3FB793DD97F62B6B 0x4030C00000000000 None"

definition ca_999 :: CloseApproach where
  "ca_999 =
     CloseApproach (PyStr ''433'') (Some dt999) 0x3FE0000000000000 0x4030C00000000000 None"

definition info_999 :: "string \<rightharpoonup> pyval" where
  "info_999 =
     map_of [(''designation'', PyStr ''433''), (''time'', PyStr ''0999-Jan-01 00:11''),
             (''distance'', PyStr ''0.5''), (''velocity'', PyStr ''16.75'')]"

definition ca_zero :: CloseApproach where
  "ca_zero = CloseApproach (PyStr ''433'') (Some dt0) 0 0x4030C00000000000 None"


definition neo_zero :: NearEarthObject where
  "neo_zero = NearEarthObject (Some ''433'') (Some ''Eros'') 0 (Some False) []"

definition info_zero :: "string \<rightharpoonup> pyval" where
  "info_zero =
     map_of [(''designation'', PyStr ''433''), (''time'', PyStr ''1900-Jan-01 00:11''),
             (''distance'', PyStr ''0.0''), (''velocity'', PyStr ''16.75'')]"






section \<open>Floats and timestamps: basic facts\<close>

lemma float_or_nan_zero: "float_or_nan 0 = nan"
  by (simp add: float_or_nan_def float_truthy_def is_zero_def)

lemma float_or_nan_truthy: "float_truthy x \<Longrightarrow> float_or_nan x = x"
  by (simp add: float_or_nan_def)

lemma nan_is_nan: "is_nan nan"
  by (simp add: is_nan_def nan_def)

lemma nan_not_zero: "nan \<noteq> 0"
  by (simp add: nan_def)

lemma is_nan_truthy: "is_nan x \<Longrightarrow> float_truthy x"
proof -
  assume a: "is_nan x"
  have "x AND 0x7FF0000000000000 = (x AND 0x7FFFFFFFFFFFFFFF) AND 0x7FF0000000000000"
    by (simp add: and.assoc)
  with a show ?thesis
    by (auto simp: is_nan_def float_truthy_def is_zero_def)
qed

lemma sample_floats_truthy:
  "float_truthy (0x4030C00000000000 :: float64)"
  "float_truthy (0x3FB793DD97F62B6B :: float64)"
  by (simp_all add: float_truthy_def is_zero_def)

lemma below10_cases: "(k::nat) < 10 \<Longrightarrow> k \<in> {0, 1, 2, 3, 4, 5, 6, 7, 8, 9}"
  by auto

lemma mod10_cases: "(n::nat) mod 10 \<in> {0, 1, 2, 3, 4, 5, 6, 7, 8, 9}"
  by (rule below10_cases) simp

lemma of_char_digit: "(of_char (digit n) :: nat) = 48 + n mod 10"
  using mod10_cases [of n] unfolding digit_def by auto

lemma is_digit_digit: "is_digit (digit n)"
  by (simp add: is_digit_def of_char_digit)

lemma read2_digits: "n < 100 \<Longrightarrow> read2 (digit (n div 10) # digit n # rest) = n"
  by (simp add: read2_def of_char_digit)

lemma decimal_four:
  assumes "1000 \<le> n" and "n \<le> 9999"
  shows "decimal n = [digit (n div 1000), digit (n div 100), digit (n div 10), digit n]"
proof -
  have n1: "\<not> n < 10" and n2: "\<not> n div 10 < 10" and n3: "\<not> n div 100 < 10"
    and n4: "n div 1000 < 10"
    using assms by simp_all
  have q: "n div 10 div 10 = n div 100" "n div 100 div 10 = n div 1000"
    by (simp_all add: div_mult2_eq [symmetric])
  have a: "decimal n = decimal (n div 10) @ [digit n]"
    using n1 by (subst decimal.simps) simp
  have b: "decimal (n div 10) = decimal (n div 100) @ [digit (n div 10)]"
    using n2 by (subst decimal.simps) (simp add: q)
  have c: "decimal (n div 100) = decimal (n div 1000) @ [digit (n div 100)]"
    using n3 by (subst decimal.simps) (simp add: q)
  have d: "decimal (n div 1000) = [digit (n div 1000)]"
    using n4 by (subst decimal.simps) simp
  show ?thesis by (simp add: a b c d)
qed

lemma four_digits_value:
  assumes "(n::nat) < 10000"
  shows "1000 * (n div 1000 mod 10) + 100 * (n div 100 mod 10) + 10 * (n div 10 mod 10)
           + n mod 10 = n"
proof -
  have q: "n div 10 div 10 = n div 100" "n div 100 div 10 = n div 1000"
    by (simp_all add: div_mult2_eq [symmetric])
  have e1: "10 * (n div 10) + n mod 10 = n" by simp
  have e2: "10 * (n div 100) + n div 10 mod 10 = n div 10"
    using mult_div_mod_eq [of 10 "n div 10"] by (simp only: q)
  have e3: "10 * (n div 1000) + n div 100 mod 10 = n div 100"
    using mult_div_mod_eq [of 10 "n div 100"] by (simp only: q)
  have e4: "n div 1000 mod 10 = n div 1000"
    using assms by simp
  have "1000 * (n div 1000 mod 10) + 100 * (n div 100 mod 10) + 10 * (n div 10 mod 10)
          + n mod 10
        = 10 * (10 * (10 * (n div 1000) + n div 100 mod 10) + n div 10 mod 10) + n mod 10"
    by (simp add: e4)
  also have "\<dots> = n" by (simp only: e3 e2 e1)
  finally show ?thesis .
qed

lemma read4_digits:
  "n < 10000 \<Longrightarrow>
     read4 (digit (n div 1000) # digit (n div 100) # digit (n div 10) # digit n # rest) = n"
  using four_digits_value [of n] by (simp add: read4_def of_char_digit)

lemma strftime_chars:
  assumes "1000 \<le> year dt" and "year dt \<le> 9999"
  shows "strftime_ymd_hm dt =
     [digit (year dt div 1000), digit (year dt div 100), digit (year dt div 10), digit (year dt),
      CHR ''-'', digit (month dt div 10), digit (month dt),
      CHR ''-'', digit (day dt div 10), digit (day dt),
      CHR '' '', digit (hour dt div 10), digit (hour dt),
      CHR '':'', digit (minute dt div 10), digit (minute dt)]"
  by (simp add: strftime_ymd_hm_def pad2_def decimal_four [OF assms])

lemma strftime_matches:
  assumes "valid_datetime dt" and "1000 \<le> year dt"
  shows "matches_ymd_hm (strftime_ymd_hm dt)"
proof -
  from assms(1) have y: "year dt \<le> 9999"
    and h: "hour dt < 100" "hour dt < 24" and m: "minute dt < 100" "minute dt < 60"
    by (simp_all add: valid_datetime_def)
  show ?thesis
    unfolding matches_ymd_hm_def strftime_chars [OF assms(2) y]
    using h(2) m(2) by (simp add: is_digit_digit read2_digits [OF h(1)] read2_digits [OF m(1)])
qed

lemma strftime_reads_back:
  assumes "valid_datetime dt" and "1000 \<le> year dt"
  shows "read4 (strftime_ymd_hm dt) = year dt \<and>
         read2 (drop 5 (strftime_ymd_hm dt)) = month dt \<and>
         read2 (drop 8 (strftime_ymd_hm dt)) = day dt \<and>
         read2 (drop 11 (strftime_ymd_hm dt)) = hour dt \<and>
         read2 (drop 14 (strftime_ymd_hm dt)) = minute dt"
proof -
  from assms(1) have y: "year dt \<le> 9999" "year dt < 10000"
    and b: "month dt < 100" "day dt < 100" "hour dt < 100" "minute dt < 100"
    by (simp_all add: valid_datetime_def)
  show ?thesis
    unfolding strftime_chars [OF assms(2) y(1)]
    by (simp add: read4_digits [OF y(2)] read2_digits [OF b(1)] read2_digits [OF b(2)]
                  read2_digits [OF b(3)] read2_digits [OF b(4)])
qed

lemma strftime_ignores_second: "strftime_ymd_hm (dt\<lparr>second := x\<rparr>) = strftime_ymd_hm dt"
  by (simp add: strftime_ymd_hm_def)

lemma valid_dt0: "valid_datetime dt0"
  by (simp add: valid_datetime_def dt0_def)

lemma year_dt0: "1000 \<le> year dt0"
  by (simp add: dt0_def)

lemma strftime_dt0: "strftime_ymd_hm dt0 = ''1900-01-01 00:11''"
proof -
  have "year dt0 \<le> 9999" by (simp add: dt0_def)
  from strftime_chars [OF year_dt0 this] show ?thesis
    by (simp add: dt0_def digit_def)
qed

lemma valid_dt999: "valid_datetime dt999"
  by (simp add: valid_datetime_def dt999_def)

lemma strftime_dt999: "strftime_ymd_hm dt999 = ''999-01-01 00:11''"
  by (simp add: strftime_ymd_hm_def dt999_def pad2_def digit_def
                decimal.simps [of 999] decimal.simps [of 99] decimal.simps [of 9])

section \<open>Serialization\<close>

lemma serialize_ca_eros:
  "CloseApproach_serialize ca_eros =
     Inr [(''datetime_utc'', PyStr ''1900-01-01 00:11''),
          (''distance_au'', PyFloat 0x3FB793DD97F62B6B),
          (''velocity_km_s'', PyFloat 0x4030C00000000000)]"
  by (simp add: CloseApproach_serialize_def ca_eros_def strftime_dt0 float_or_nan_truthy
                sample_floats_truthy)

lemma init_info_zero: "CloseApproach_init sample_cd sample_fos info_zero = Inr ca_zero"
  by (simp add: CloseApproach_init_def init_time_def info_get_def info_zero_def sample_cd_def
                sample_fos_def ca_zero_def)

lemma NearEarthObject_serialize_strings:
  "map_of (NearEarthObject_serialize self) ''designation'' =
     Some (PyStr (case designation self of None \<Rightarrow> [] | Some s \<Rightarrow> s)) \<and>
   map_of (NearEarthObject_serialize self) ''name'' =
     Some (PyStr (case name self of None \<Rightarrow> [] | Some s \<Rightarrow> s)) \<and>
   map_of (NearEarthObject_serialize self) ''potentially_hazardous'' =
     Some (hazardous_val (hazardous self))"
  by (simp add: NearEarthObject_serialize_def str_or_empty_def)

lemma NearEarthObject_serialize_diameter:
  "map_of (NearEarthObject_serialize self) ''diameter_km'' =
     Some (PyFloat (if is_zero (diameter self) then nan else diameter self))"
  by (simp add: NearEarthObject_serialize_def float_or_nan_def float_truthy_def)

text \<open>
  Claim C1. Serializing a close approach and reading the distance and velocity back
  gives the stored values, also when one of them is 0.0. The code does not: an approach
  built by the constructor from the distance string \<open>0.0\<close> stores 0.0, and
  \<open>serialize\<close> emits NaN in its place, because \<open>self.distance or float('nan')\<close>
  takes the zero for false.
\<close>

theorem CloseApproach_serialize_zero_distance:
  "CloseApproach_init sample_cd sample_fos info_zero = Inr ca_zero \<and>
   distance ca_zero = 0 \<and>
   CloseApproach_serialize ca_zero =
     Inr [(''datetime_utc'', PyStr ''1900-01-01 00:11''),
          (''distance_au'', PyFloat nan),
          (''velocity_km_s'', PyFloat 0x4030C00000000000)] \<and>
   is_nan nan \<and> nan \<noteq> distance ca_zero"
proof -
  have "CloseApproach_serialize ca_zero =
     Inr [(''datetime_utc'', PyStr ''1900-01-01 00:11''),
          (''distance_au'', PyFloat nan),
          (''velocity_km_s'', PyFloat 0x4030C00000000000)]"
    by (simp add: CloseApproach_serialize_def ca_zero_def strftime_dt0 float_or_nan_zero
                  float_or_nan_truthy sample_floats_truthy)
  moreover have "distance ca_zero = 0" by (simp add: ca_zero_def)
  ultimately show ?thesis
    using init_info_zero nan_is_nan nan_not_zero by simp
qed

text \<open>
  Claim C2. The serialization of a linked close approach is said to carry the fields of
  its NEO as well. It does not: for the approach \<open>ca_eros\<close>, linked to Eros, the record
  has the three entries of the approach and no entry \<open>name\<close>, while the NEO's own
  record has one.
\<close>

theorem CloseApproach_serialize_no_neo_fields:
  "neo ca_eros = Some neo_eros \<and>
   CloseApproach_serialize ca_eros =
     Inr [(''datetime_utc'', PyStr ''1900-01-01 00:11''),
          (''distance_au'', PyFloat 0x3FB793DD97F62B6B),
          (''velocity_km_s'', PyFloat 0x4030C00000000000)] \<and>
   map_of (NearEarthObject_serialize neo_eros) ''name'' = Some (PyStr ''Eros'') \<and>
   map_of [(''datetime_utc'', PyStr ''1900-01-01 00:11''),
           (''distance_au'', PyFloat 0x3FB793DD97F62B6B),
           (''velocity_km_s'', PyFloat 0x4030C00000000000)] ''name'' = None"
  using serialize_ca_eros
  by (simp add: ca_eros_def NearEarthObject_serialize_def neo_eros_def str_or_empty_def)

text \<open>
  Claim C2, as amended. For every close approach with a timestamp, linked or not,
  \<open>serialize\<close> returns a record of exactly three entries, \<open>datetime_utc\<close>,
  \<open>distance_au\<close> and \<open>velocity_km_s\<close>: the timestamp formatted to the minute, and
  the stored distance and velocity where these are not zero. The record is the same
  whatever the \<open>neo\<close> attribute holds.
\<close>

theorem CloseApproach_serialize_fields:
  assumes "time self = Some dt"
  shows "\<exists>r. CloseApproach_serialize self = Inr r \<and>
           map fst r = [''datetime_utc'', ''distance_au'', ''velocity_km_s''] \<and>
           map_of r ''datetime_utc'' = Some (PyStr (strftime_ymd_hm dt)) \<and>
           (float_truthy (distance self) \<longrightarrow>
              map_of r ''distance_au'' = Some (PyFloat (distance self))) \<and>
           (float_truthy (velocity self) \<longrightarrow>
              map_of r ''velocity_km_s'' = Some (PyFloat (velocity self))) \<and>
           (\<forall>other. CloseApproach_serialize
                      (CloseApproach (ca_designation self) (time self) (distance self)
                         (velocity self) other) = Inr r)"
  using assms by (simp add: CloseApproach_serialize_def float_or_nan_truthy)

theorem CloseApproach_serialize_fields_witness:
  "time ca_eros = Some dt0 \<and> float_truthy (distance ca_eros) \<and> float_truthy (velocity ca_eros) \<and>
   (\<exists>r. CloseApproach_serialize ca_eros = Inr r \<and>
        map fst r = [''datetime_utc'', ''distance_au'', ''velocity_km_s''] \<and>
        map_of r ''datetime_utc'' = Some (PyStr ''1900-01-01 00:11'') \<and>
        map_of r ''distance_au'' = Some (PyFloat 0x3FB793DD97F62B6B) \<and>
        map_of r ''velocity_km_s'' = Some (PyFloat 0x4030C00000000000) \<and>
        CloseApproach_serialize ca_unlinked = Inr r)"
proof -
  have t: "time ca_eros = Some dt0" by (simp add: ca_eros_def)
  have d: "distance ca_eros = 0x3FB793DD97F62B6B" "velocity ca_eros = 0x4030C00000000000"
    "ca_designation ca_eros = PyStr ''433''"
    by (simp_all add: ca_eros_def)
  from CloseApproach_serialize_fields [OF t] obtain r where r:
    "CloseApproach_serialize ca_eros = Inr r \<and>
     map fst r = [''datetime_utc'', ''distance_au'', ''velocity_km_s''] \<and>
     map_of r ''datetime_utc'' = Some (PyStr (strftime_ymd_hm dt0)) \<and>
     (float_truthy (distance ca_eros) \<longrightarrow>
        map_of r ''distance_au'' = Some (PyFloat (distance ca_eros))) \<and>
     (float_truthy (velocity ca_eros) \<longrightarrow>
        map_of r ''velocity_km_s'' = Some (PyFloat (velocity ca_eros))) \<and>
     (\<forall>other. CloseApproach_serialize
                (CloseApproach (ca_designation ca_eros) (time ca_eros) (distance ca_eros)
                   (velocity ca_eros) other) = Inr r)" ..
  then have "CloseApproach_serialize
               (CloseApproach (ca_designation ca_eros) (time ca_eros) (distance ca_eros)
                  (velocity ca_eros) None) = Inr r"
    by blast
  then have u: "CloseApproach_serialize ca_unlinked = Inr r"
    by (simp add: t d ca_unlinked_def)
  have "CloseApproach_serialize ca_eros = Inr r \<and>
        map fst r = [''datetime_utc'', ''distance_au'', ''velocity_km_s''] \<and>
        map_of r ''datetime_utc'' = Some (PyStr ''1900-01-01 00:11'') \<and>
        map_of r ''distance_au'' = Some (PyFloat 0x3FB793DD97F62B6B) \<and>
        map_of r ''velocity_km_s'' = Some (PyFloat 0x4030C00000000000) \<and>
        CloseApproach_serialize ca_unlinked = Inr r"
    using r u by (simp add: d strftime_dt0 sample_floats_truthy)
  then show ?thesis
    using t by (auto simp: d sample_floats_truthy)
qed

text \<open>
  Claim C3. The NEO's record carries the stored diameter, NaN only when the diameter is
  unknown, so a known diameter of 0.0 comes out as 0.0. The code does not: the NEO built
  by the constructor from the diameter string \<open>0.0\<close> stores 0.0, and \<open>serialize\<close>
  emits NaN, because \<open>self.diameter or float('nan')\<close> takes the zero for false. The
  designation, the name and the hazardous flag come out as claimed
  (\<open>NearEarthObject_serialize_strings\<close>).
\<close>

theorem NearEarthObject_serialize_zero_diameter:
  "NearEarthObject_init sample_fos (Some ''433'') (Some ''Eros'') (PyStr ''0.0'') (Some False)
     = Inr neo_zero \<and>
   diameter neo_zero = 0 \<and>
   NearEarthObject_serialize neo_zero =
     [(''designation'', PyStr ''433''), (''name'', PyStr ''Eros''),
      (''diameter_km'', PyFloat nan), (''potentially_hazardous'', PyBool False)] \<and>
   is_nan nan \<and> nan \<noteq> diameter neo_zero"
proof -
  have "NearEarthObject_init sample_fos (Some ''433'') (Some ''Eros'') (PyStr ''0.0'') (Some False)
     = Inr neo_zero"
    by (simp add: NearEarthObject_init_def sample_fos_def neo_zero_def)
  moreover have "NearEarthObject_serialize neo_zero =
     [(''designation'', PyStr ''433''), (''name'', PyStr ''Eros''),
      (''diameter_km'', PyFloat nan), (''potentially_hazardous'', PyBool False)]"
    by (simp add: NearEarthObject_serialize_def neo_zero_def str_or_empty_def hazardous_val_def
                  float_or_nan_zero)
  moreover have "diameter neo_zero = 0" by (simp add: neo_zero_def)
  ultimately show ?thesis using nan_is_nan nan_not_zero by simp
qed

section \<open>Timestamp formatting\<close>

lemma drop_prefix_middle: "length p = k \<Longrightarrow> drop (k + length m) (p @ m @ z) = z"
  by simp

lemma init_info_999: "CloseApproach_init sample_cd sample_fos info_999 = Inr ca_999"
  by (simp add: CloseApproach_init_def init_time_def info_get_def info_999_def sample_cd_def
                sample_fos_def ca_999_def)

lemma serialize_ca_999:
  "CloseApproach_serialize ca_999 =
     Inr [(''datetime_utc'', PyStr ''999-01-01 00:11''),
          (''distance_au'', PyFloat 0x3FE0000000000000),
          (''velocity_km_s'', PyFloat 0x4030C00000000000)]"
proof -
  have "float_truthy (0x3FE0000000000000 :: float64)"
    by (simp add: float_truthy_def is_zero_def)
  then show ?thesis
    by (simp add: CloseApproach_serialize_def ca_999_def strftime_dt999 float_or_nan_truthy
                  sample_floats_truthy)
qed

text \<open>
  Claim C4. Both \<open>time_str\<close> and the \<open>datetime_utc\<close> entry are said to be exactly
  \<open>YYYY-MM-DD HH:MM\<close>, for every timestamp. For \<open>time_str\<close> this fails, with the
  helper formatting the timestamp that way: the property puts \<open>Time\<close> and a space in
  front, and the name and designation of the NEO behind once the approach is linked. For
  the \<open>datetime_utc\<close> entry it fails on a year below 1000: the approach that the
  constructor builds for the year 999 serializes to \<open>999-01-01 00:11\<close>, one character
  short.
\<close>

theorem time_str_not_bare_timestamp:
  "time_str strftime_ymd_hm ca_unlinked = ''Time 1900-01-01 00:11'' \<and>
   \<not> matches_ymd_hm (time_str strftime_ymd_hm ca_unlinked) \<and>
   time_str strftime_ymd_hm ca_eros = ''Time 1900-01-01 00:11Name Eros Designation 433'' \<and>
   \<not> matches_ymd_hm (time_str strftime_ymd_hm ca_eros) \<and>
   valid_datetime dt999 \<and>
   CloseApproach_init sample_cd sample_fos info_999 = Inr ca_999 \<and>
   CloseApproach_serialize ca_999 =
     Inr [(''datetime_utc'', PyStr ''999-01-01 00:11''),
          (''distance_au'', PyFloat 0x3FE0000000000000),
          (''velocity_km_s'', PyFloat 0x4030C00000000000)] \<and>
   \<not> matches_ymd_hm ''999-01-01 00:11''"
proof -
  have "time_str strftime_ymd_hm ca_unlinked = ''Time 1900-01-01 00:11'' \<and>
        \<not> matches_ymd_hm (time_str strftime_ymd_hm ca_unlinked) \<and>
        time_str strftime_ymd_hm ca_eros = ''Time 1900-01-01 00:11Name Eros Designation 433'' \<and>
        \<not> matches_ymd_hm (time_str strftime_ymd_hm ca_eros)"
    by (simp add: time_str_def ca_unlinked_def ca_eros_def neo_eros_def neo_suffix_def
                  py_str_def strftime_dt0 matches_ymd_hm_def)
  moreover have "\<not> matches_ymd_hm ''999-01-01 00:11''"
    by (simp add: matches_ymd_hm_def)
  ultimately show ?thesis
    using valid_dt999 init_info_999 serialize_ca_999 by blast
qed

text \<open>
  Claim C4, as amended. For every timestamp of a close approach whose year has four
  digits (1000 to 9999), the \<open>datetime_utc\<close> entry of the serialized record is exactly
  \<open>YYYY-MM-DD HH:MM\<close> (24-hour, zero-padded, no seconds, no suffix), and its digits
  are the year, month, day, hour and minute of the timestamp. The \<open>time_str\<close>
  property is never that bare string: it begins with the word \<open>Time\<close> and a space,
  goes on with what the helper \<open>datetime_to_str\<close> returns for the timestamp, and ends
  there for an unlinked approach; for an approach linked to a NEO the word \<open>Name\<close>,
  the NEO's name, the word \<open>Designation\<close> and the NEO's designation follow.
\<close>

theorem timestamp_format:
  assumes "valid_datetime dt" and "1000 \<le> year dt" and "time self = Some dt"
  shows "(\<exists>r s. CloseApproach_serialize self = Inr r \<and>
            map_of r ''datetime_utc'' = Some (PyStr s) \<and> matches_ymd_hm s \<and>
            read4 s = year dt \<and> read2 (drop 5 s) = month dt \<and> read2 (drop 8 s) = day dt \<and>
            read2 (drop 11 s) = hour dt \<and> read2 (drop 14 s) = minute dt) \<and>
         \<not> matches_ymd_hm (time_str dts self) \<and>
         take 5 (time_str dts self) = ''Time '' \<and>
         take (length (dts dt)) (drop 5 (time_str dts self)) = dts dt \<and>
         (neo self = None \<longrightarrow> drop (5 + length (dts dt)) (time_str dts self) = []) \<and>
         (\<forall>n. neo self = Some n \<longrightarrow>
            drop (5 + length (dts dt)) (time_str dts self) =
              ''Name '' @ py_str (name n) @ '' Designation '' @ py_str (designation n))"
proof -
  have m: "matches_ymd_hm (strftime_ymd_hm dt)"
    using assms(1,2) by (rule strftime_matches)
  have "\<exists>r s. CloseApproach_serialize self = Inr r \<and>
            map_of r ''datetime_utc'' = Some (PyStr s) \<and> matches_ymd_hm s \<and>
            read4 s = year dt \<and> read2 (drop 5 s) = month dt \<and> read2 (drop 8 s) = day dt \<and>
            read2 (drop 11 s) = hour dt \<and> read2 (drop 14 s) = minute dt"
    using assms(3) m strftime_reads_back [OF assms(1,2)]
    by (simp add: CloseApproach_serialize_def)
  moreover have ts: "time_str dts self = ''Time '' @ dts dt @ neo_suffix (neo self)"
    using assms(3) by (simp add: time_str_def)
  moreover have "\<not> matches_ymd_hm (time_str dts self)"
    by (simp add: ts matches_ymd_hm_def is_digit_def)
  moreover have "take 5 (time_str dts self) = ''Time ''"
    by (simp add: ts)
  moreover have "take (length (dts dt)) (drop 5 (time_str dts self)) = dts dt"
    by (simp add: ts)
  moreover have sfx: "drop (5 + length (dts dt)) (time_str dts self) = neo_suffix (neo self)"
    using drop_prefix_middle [of "''Time ''" 5 "dts dt" "neo_suffix (neo self)"]
    by (simp add: ts)
  moreover have "neo self = None \<longrightarrow> drop (5 + length (dts dt)) (time_str dts self) = []"
    by (simp add: sfx neo_suffix_def)
  moreover have "\<forall>n. neo self = Some n \<longrightarrow>
            drop (5 + length (dts dt)) (time_str dts self) =
              ''Name '' @ py_str (name n) @ '' Designation '' @ py_str (designation n)"
    by (simp add: sfx neo_suffix_def)
  ultimately show ?thesis by blast
qed

theorem timestamp_format_witness:
  "valid_datetime dt0 \<and> 1000 \<le> year dt0 \<and> time ca_eros = Some dt0 \<and>
   neo ca_eros = Some neo_eros \<and> time ca_unlinked = Some dt0 \<and> neo ca_unlinked = None \<and>
   (\<exists>r. CloseApproach_serialize ca_eros = Inr r \<and>
      map_of r ''datetime_utc'' = Some (PyStr ''1900-01-01 00:11'')) \<and>
   matches_ymd_hm ''1900-01-01 00:11'' \<and>
   read4 ''1900-01-01 00:11'' = year dt0 \<and>
   read2 (drop 11 ''1900-01-01 00:11'') = hour dt0 \<and>
   read2 (drop 14 ''1900-01-01 00:11'') = minute dt0 \<and>
   \<not> matches_ymd_hm (time_str strftime_ymd_hm ca_eros) \<and>
   take 5 (time_str strftime_ymd_hm ca_eros) = ''Time '' \<and>
   take 16 (drop 5 (time_str strftime_ymd_hm ca_eros)) = ''1900-01-01 00:11'' \<and>
   drop 21 (time_str strftime_ymd_hm ca_eros) = ''Name Eros Designation 433'' \<and>
   drop 21 (time_str strftime_ymd_hm ca_unlinked) = []"
proof -
  have t: "time ca_eros = Some dt0" and n: "neo ca_eros = Some neo_eros"
    by (simp_all add: ca_eros_def)
  have tu: "time ca_unlinked = Some dt0" and nu: "neo ca_unlinked = None"
    by (simp_all add: ca_unlinked_def)
  have e: "py_str (name neo_eros) = ''Eros''" "py_str (designation neo_eros) = ''433''"
    by (simp_all add: neo_eros_def py_str_def)
  have l: "length (strftime_ymd_hm dt0) = 16"
    by (simp add: strftime_dt0)
  note a = timestamp_format [OF valid_dt0 year_dt0 t, of strftime_ymd_hm, unfolded l]
  note b = timestamp_format [OF valid_dt0 year_dt0 tu, of strftime_ymd_hm, unfolded l]
  from a have s: "\<exists>r s. CloseApproach_serialize ca_eros = Inr r \<and>
            map_of r ''datetime_utc'' = Some (PyStr s) \<and> matches_ymd_hm s \<and>
            read4 s = year dt0 \<and> read2 (drop 5 s) = month dt0 \<and> read2 (drop 8 s) = day dt0 \<and>
            read2 (drop 11 s) = hour dt0 \<and> read2 (drop 14 s) = minute dt0"
    by (rule conjunct1)
  have s': "(\<exists>r. CloseApproach_serialize ca_eros = Inr r \<and>
      map_of r ''datetime_utc'' = Some (PyStr ''1900-01-01 00:11'')) \<and>
   matches_ymd_hm ''1900-01-01 00:11'' \<and>
   read4 ''1900-01-01 00:11'' = year dt0 \<and>
   read2 (drop 11 ''1900-01-01 00:11'') = hour dt0 \<and>
   read2 (drop 14 ''1900-01-01 00:11'') = minute dt0"
    using s serialize_ca_eros by auto
  from a have a1: "\<not> matches_ymd_hm (time_str strftime_ymd_hm ca_eros)"
    and a2: "take 5 (time_str strftime_ymd_hm ca_eros) = ''Time ''"
    and a3: "take 16 (drop 5 (time_str strftime_ymd_hm ca_eros)) = strftime_ymd_hm dt0"
    by blast+
  from a n have a4: "drop (5 + 16) (time_str strftime_ymd_hm ca_eros) =
      ''Name '' @ py_str (name neo_eros) @ '' Designation '' @ py_str (designation neo_eros)"
    by blast
  from b nu have b4: "drop (5 + 16) (time_str strftime_ymd_hm ca_unlinked) = []"
    by blast
  have a3': "take 16 (drop 5 (time_str strftime_ymd_hm ca_eros)) = ''1900-01-01 00:11''"
    using a3 by (simp only: strftime_dt0)
  have a4': "drop 21 (time_str strftime_ymd_hm ca_eros) = ''Name Eros Designation 433''"
    using a4 by (simp add: e)
  have b4': "drop 21 (time_str strftime_ymd_hm ca_unlinked) = []"
    using b4 by simp
  from valid_dt0 year_dt0 t n tu nu s' a1 a2 a3' a4' b4' show ?thesis
    by (intro conjI) simp_all
qed

section \<open>Constructors\<close>







text \<open>
  Claim C5. The NEO constructor turns an empty designation and an empty name into
  \<open>None\<close>, stores the diameter as a float, NaN where the string does not parse (the
  constructor returns then, it does not raise), and stores the hazardous flag as given,
  \<open>None\<close> included. The diameter is a string, as \<open>load_neos\<close> passes it, or a
  float, as the default is; on other values \<open>float\<close> raises \<open>TypeError\<close>
  (\<open>py_float\<close>), which is no parse failure and which the constructor lets through.
\<close>

theorem NearEarthObject_init_normalizes:
  "NearEarthObject_init fos d n (PyStr s) h =
     Inr (NearEarthObject (if d = Some [] then None else d) (if n = Some [] then None else n)
            (case fos s of None \<Rightarrow> nan | Some x \<Rightarrow> x) h [])
   \<and> NearEarthObject_init fos d n (PyFloat x) h =
     Inr (NearEarthObject (if d = Some [] then None else d) (if n = Some [] then None else n)
            x h [])"
  by (simp add: NearEarthObject_init_def Let_def split: option.split)



text \<open>
  Claim C8. An object that a constructor has just returned is not linked: the
  \<open>approaches\<close> list of a NearEarthObject is empty and the \<open>neo\<close> attribute of a
  CloseApproach is \<open>None\<close>.
\<close>

theorem fresh_objects_unlinked:
  "(NearEarthObject_init fos d n dia h = Inr obj \<longrightarrow> approaches obj = []) \<and>
   (CloseApproach_init cd fos info = Inr ca \<longrightarrow> neo ca = None)"
  by (auto simp: NearEarthObject_init_def CloseApproach_init_def Let_def
           split: sum.splits error.splits)

theorem fresh_objects_unlinked_witness:
  "NearEarthObject_init sample_fos (Some ''433'') (Some ''Eros'') (PyStr ''0.0'') (Some False)
     = Inr neo_zero \<and>
   approaches neo_zero = [] \<and>
   CloseApproach_init sample_cd sample_fos info_zero = Inr ca_zero \<and>
   neo ca_zero = None"
proof -
  have i: "NearEarthObject_init sample_fos (Some ''433'') (Some ''Eros'') (PyStr ''0.0'')
             (Some False) = Inr neo_zero"
    by (simp add: NearEarthObject_init_def sample_fos_def neo_zero_def)
  from fresh_objects_unlinked
         [of sample_fos "Some ''433''" "Some ''Eros''" "PyStr ''0.0''" "Some False" neo_zero
             sample_cd info_zero ca_zero]
  show ?thesis using i init_info_zero by simp
qed

section \<open>A close approach without a timestamp\<close>

text \<open>
  Claim C9. \<open>serialize\<close> needs the timestamp: on a close approach whose \<open>time\<close> is
  \<open>None\<close> it raises (\<open>None\<close> has no \<open>strftime\<close>) and returns no record, whatever
  the other attributes are; with a timestamp it returns one.
\<close>

theorem CloseApproach_serialize_absent_time_raises:
  "CloseApproach_serialize (CloseApproach g None d v r) = Inl AttributeError \<and>
   (\<exists>rec. CloseApproach_serialize (CloseApproach g (Some dt) d v r) = Inr rec)"
  by (simp add: CloseApproach_serialize_def)

text \<open>
  Claim C10. On a close approach whose \<open>time\<close> is \<open>None\<close>, \<open>time_str\<close> returns the
  empty string, whether the approach is unlinked or linked to a NEO \<open>n\<close>.
\<close>

theorem time_str_absent_time_empty:
  "time_str dts (CloseApproach g None d v None) = [] \<and>
   time_str dts (CloseApproach g None d v (Some n)) = []"
  by (simp add: time_str_def)

section \<open>The NEO loader\<close>



lemma neo_of_row_total: "15 < length row \<Longrightarrow> \<exists>n. neo_of_row fos row = Inr n"
  by (simp add: neo_of_row_def row_get_def NearEarthObject_init_def Let_def split: option.split)





end
